theory Spec2Isabelle
  imports Main "HOL-Library.AList"
begin

section \<open>Values exchanged with the server\<close>

text \<open>
  Request bodies, stored survey and audit records and upstream answers are JSON values.
  A number is an integer here, small enough to be exact and to print in plain digits
  (ids are \<open>Date.now()\<close> readings); fractional numbers play no part in any handler. An object is its list of properties in insertion order with
  distinct keys, as \<open>JSON.parse\<close> produces it. JavaScript's \<open>undefined\<close> is the \<open>None\<close>
  of \<open>json option\<close>.

  A \<open>char\<close> stands for one UTF-16 code unit below 256, so a \<open>string\<close> is a JavaScript
  string over Latin-1 and \<open>length\<close> is its \<open>.length\<close>.
\<close>

datatype json =
    JNull
  | JBool bool
  | JNum int
  | JStr string
  | JArr "json list"
  | JObj "(string \<times> json) list"

text \<open>\<open>!!v\<close>: the values JavaScript treats as true in a condition.\<close>

fun truthy :: "json \<Rightarrow> bool" where
  "truthy JNull = False"
| "truthy (JBool b) = b"
| "truthy (JNum n) = (n \<noteq> 0)"
| "truthy (JStr s) = (s \<noteq> [])"
| "truthy (JArr xs) = True"
| "truthy (JObj kvs) = True"

text \<open>\<open>x || d\<close> where \<open>x\<close> may be \<open>undefined\<close>.\<close>

fun js_or :: "json option \<Rightarrow> json \<Rightarrow> json" where
  "js_or None d = d"
| "js_or (Some v) d = (if truthy v then v else d)"

text \<open>\<open>!x\<close> where \<open>x\<close> may be \<open>undefined\<close>.\<close>

fun falsy :: "json option \<Rightarrow> bool" where
  "falsy None = True"
| "falsy (Some v) = (\<not> truthy v)"

text \<open>
  \<open>v.k\<close> (and the destructuring \<open>const { k } = v\<close>) for the keys the handlers read:
  a property of an object, \<open>undefined\<close> on an array or a primitive.
\<close>

fun get_prop :: "json \<Rightarrow> string \<Rightarrow> json option" where
  "get_prop (JObj kvs) k = map_of kvs k"
| "get_prop v k = None"

text \<open>\<open>v[0]\<close>.\<close>

fun index0 :: "json \<Rightarrow> json option" where
  "index0 (JArr []) = None"
| "index0 (JArr (x # xs)) = Some x"
| "index0 (JObj kvs) = map_of kvs ''0''"
| "index0 (JStr []) = None"
| "index0 (JStr (c # cs)) = Some (JStr [c])"
| "index0 v = None"

text \<open>
  \<open>v.k = x\<close> followed by \<open>JSON.stringify\<close>: on an object the property is overwritten in
  place or added last. On an array the assignment creates a non-index property, which
  \<open>JSON.stringify\<close> does not write; on a primitive it is dropped (the file is not in
  strict mode). So what reaches the file is the value unchanged.
\<close>

fun assign :: "json \<Rightarrow> string \<Rightarrow> json \<Rightarrow> json" where
  "assign (JObj kvs) k x = JObj (AList.update k x kvs)"
| "assign v k x = v"

subsection \<open>Strings\<close>

fun digits :: "nat \<Rightarrow> string" where
  "digits n = (if n < 10 then [char_of (48 + n)]
               else digits (n div 10) @ [char_of (48 + n mod 10)])"

text \<open>
  \<open>String(n)\<close> for an integer whose magnitude is below \<open>2^53\<close>, where the number is
  exact and prints in plain decimal digits. Larger numbers, which JavaScript rounds and
  from \<open>1e21\<close> on prints with an exponent, are outside what this function describes.
\<close>

definition number_to_string :: "int \<Rightarrow> string" where
  "number_to_string i = (if i < 0 then CHR ''-'' # digits (nat (- i)) else digits (nat i))"

fun join :: "string list \<Rightarrow> string" where
  "join [] = []"
| "join [s] = s"
| "join (s # t # ss) = s @ CHR '','' # join (t # ss)"

text \<open>
  \<open>String(v)\<close>. A string is returned as it is. An array prints its elements joined by
  commas, \<open>null\<close> elements as the empty string; an object prints as
  \<open>[object Object]\<close>. The one object this does not describe is an object with a
  property of its own named \<open>toString\<close>: on it \<open>String\<close> throws.
\<close>

fun js_String :: "json \<Rightarrow> string" where
  "js_String JNull = ''null''"
| "js_String (JBool b) = (if b then ''true'' else ''false'')"
| "js_String (JNum n) = number_to_string n"
| "js_String (JStr s) = s"
| "js_String (JArr xs) = join (map (\<lambda>x. if x = JNull then [] else js_String x) xs)"
| "js_String (JObj kvs) = ''[object Object]''"

text \<open>White space and line terminators below code unit 256.\<close>

definition is_space :: "char \<Rightarrow> bool" where
  "is_space c = ((of_char c :: nat) \<in> {9, 10, 11, 12, 13, 32, 160})"

definition trim :: "string \<Rightarrow> string" where
  "trim s = rev (dropWhile is_space (rev (dropWhile is_space s)))"

definition is_upper :: "char \<Rightarrow> bool" where
  "is_upper c = (let n = (of_char c :: nat) in
     (65 \<le> n \<and> n \<le> 90) \<or> (192 \<le> n \<and> n \<le> 222 \<and> n \<noteq> 215))"

definition lower_char :: "char \<Rightarrow> char" where
  "lower_char c = (if is_upper c then char_of ((of_char c :: nat) + 32) else c)"

definition toLowerCase :: "string \<Rightarrow> string" where
  "toLowerCase s = map lower_char s"

text \<open>The character class \<open>[A-Za-z0-9_-]\<close>.\<close>

definition name_char :: "char \<Rightarrow> bool" where
  "name_char c = (let n = (of_char c :: nat) in
     (65 \<le> n \<and> n \<le> 90) \<or> (97 \<le> n \<and> n \<le> 122) \<or> (48 \<le> n \<and> n \<le> 57)
     \<or> c = CHR ''_'' \<or> c = CHR ''-'')"

text \<open>\<open>/^[A-Za-z0-9_-]{2,32}$/.test(s)\<close>.\<close>

definition name_pattern :: "string \<Rightarrow> bool" where
  "name_pattern s = (2 \<le> length s \<and> length s \<le> 32 \<and> list_all name_char s)"

section \<open>The data files\<close>

text \<open>
  A user as \<open>/api/register\<close> writes it. \<open>avatarUrl\<close> is a JSON value: \<open>/api/me/avatar\<close>
  stores whatever true value the request carries.
\<close>

record user =
  user_id :: int
  username :: string
  passwordHash :: string
  avatarUrl :: json
  createdAt :: string

text \<open>
  A file of the data directory: absent, empty (zero bytes), holding a JSON array of
  records, or holding text that \<open>JSON.parse\<close> rejects.
\<close>

datatype 'a data_file = Missing | Blank | Rows "'a list" | Corrupt

record files =
  USERS_FILE :: "user data_file"
  RESP_FILE :: "json data_file"
  LOGINS_FILE :: "json data_file"

datatype io_error = ENOENT | SyntaxError

text \<open>\<open>ensureDataFiles\<close>: a file that cannot be accessed is written as \<open>[]\<close>.\<close>

definition ensure :: "'a data_file \<Rightarrow> 'a data_file" where
  "ensure f = (case f of Missing \<Rightarrow> Rows [] | _ \<Rightarrow> f)"

definition ensureDataFiles :: "files \<Rightarrow> files" where
  "ensureDataFiles fs =
     \<lparr>USERS_FILE = ensure (USERS_FILE fs),
      RESP_FILE = ensure (RESP_FILE fs),
      LOGINS_FILE = ensure (LOGINS_FILE fs)\<rparr>"

text \<open>\<open>readJson\<close>: \<open>fs.readFile\<close> throws on an absent file; an empty one parses as \<open>[]\<close>.\<close>

fun readJson :: "'a data_file \<Rightarrow> io_error + 'a list" where
  "readJson Missing = Inl ENOENT"
| "readJson Blank = Inr []"
| "readJson (Rows xs) = Inr xs"
| "readJson Corrupt = Inl SyntaxError"

text \<open>\<open>writeJson\<close>: the whole array replaces the file.\<close>

definition writeJson :: "'a list \<Rightarrow> 'a data_file" where
  "writeJson xs = Rows xs"

section \<open>Replies\<close>

text \<open>
  \<open>res.status(s).json(v)\<close> is \<open>Reply s v\<close>; \<open>res.json(v)\<close> answers with status 200.
  A handler without \<open>try\<close> whose promise rejects sends nothing.
\<close>

datatype reply = Reply nat json | Unhandled_Rejection

definition failure :: "nat \<Rightarrow> string \<Rightarrow> reply" where
  "failure s msg = Reply s (JObj [(''error'', JStr msg)])"

definition ok_reply :: reply where
  "ok_reply = Reply 200 (JObj [(''ok'', JBool True)])"

definition internal_error :: reply where
  "internal_error = failure 500 ''Error interno''"

section \<open>Audit of login attempts\<close>

text \<open>
  \<open>POST /api/saveLogin\<close>. \<open>now_iso\<close> is the reading of \<open>new Date().toISOString()\<close>.
\<close>

definition login_entry :: "string \<Rightarrow> json \<Rightarrow> json" where
  "login_entry now_iso body =
     (let b = (if truthy body then body else JObj []) in
      JObj [(''username'', JStr (trim (js_String (js_or (get_prop b ''username'') (JStr []))))),
            (''avatarUrl'', js_or (get_prop b ''avatarUrl'') (JStr [])),
            (''timestamp'', JStr now_iso)])"

definition saveLogin :: "string \<Rightarrow> json \<Rightarrow> files \<Rightarrow> reply \<times> files" where
  "saveLogin now_iso body fs =
     (let entry = login_entry now_iso body in
      case readJson (LOGINS_FILE fs) of
        Inl e \<Rightarrow> (internal_error, fs)
      | Inr arr \<Rightarrow> (ok_reply, fs\<lparr>LOGINS_FILE := writeJson (arr @ [entry])\<rparr>))"

text \<open>The property names of a record, in order.\<close>

fun keys :: "json \<Rightarrow> string list" where
  "keys (JObj kvs) = map fst kvs"
| "keys v = []"

section \<open>Survey responses\<close>

text \<open>
  \<open>POST /api/saveResponse\<close>: the body (or \<open>{}\<close> for a false one) gets the property
  \<open>timestamp\<close> and is pushed onto the array read from the file.
\<close>

definition stamp :: "string \<Rightarrow> json \<Rightarrow> json" where
  "stamp now_iso body =
     (let b = (if truthy body then body else JObj []) in
      assign b ''timestamp'' (JStr now_iso))"

definition saveResponse :: "string \<Rightarrow> json \<Rightarrow> files \<Rightarrow> reply \<times> files" where
  "saveResponse now_iso body fs =
     (let b = stamp now_iso body in
      case readJson (RESP_FILE fs) of
        Inl e \<Rightarrow> (internal_error, fs)
      | Inr arr \<Rightarrow> (ok_reply, fs\<lparr>RESP_FILE := writeJson (arr @ [b])\<rparr>))"

text \<open>The record that a request, a clock reading with a body, leaves in the file.\<close>

definition stamped :: "(string \<times> json) \<Rightarrow> json" where
  "stamped r = stamp (fst r) (snd r)"

text \<open>
  Requests served one after the other, each with its own clock reading; the replies
  are collected in order.
\<close>

fun saveResponses :: "(string \<times> json) list \<Rightarrow> files \<Rightarrow> reply list \<times> files" where
  "saveResponses [] fs = ([], fs)"
| "saveResponses ((now_iso, body) # reqs) fs =
     (let (r, fs') = saveResponse now_iso body fs;
          (rs, fs'') = saveResponses reqs fs'
      in (r # rs, fs''))"

section \<open>Accounts\<close>

text \<open>
  The two fields both account handlers read from the body:
  \<open>String(username || '').trim()\<close> and \<open>String(password || '')\<close>.
\<close>

definition body_username :: "json \<Rightarrow> string" where
  "body_username body = trim (js_String (js_or (get_prop body ''username'') (JStr [])))"

definition body_password :: "json \<Rightarrow> string" where
  "body_password body = js_String (js_or (get_prop body ''password'') (JStr []))"

definition same_name :: "string \<Rightarrow> user \<Rightarrow> bool" where
  "same_name username' u = (toLowerCase (username u) = toLowerCase username')"

definition invalid_name_msg :: string where
  "invalid_name_msg = ''Nombre de usuario inv'' @ [CHR 0xE1] @ ''lido''"

definition short_password_msg :: string where
  "short_password_msg =
     ''La contrase'' @ [CHR 0xF1] @ ''a debe tener al menos 6 caracteres''"

definition bad_charset_msg :: string where
  "bad_charset_msg =
     ''Usuario s'' @ [CHR 0xF3] @ ''lo letras/n'' @ [CHR 0xFA] @ ''meros/_- permitidos''"

definition invalid_credentials_msg :: string where
  "invalid_credentials_msg =
     ''Usuario/contrase'' @ [CHR 0xF1] @ ''a inv'' @ [CHR 0xE1] @ ''lidos''"

text \<open>
  \<open>POST /api/register\<close>. \<open>bcrypt_hash\<close> is \<open>bcrypt.hash\<close> at cost 10 as a function of the
  password and of the salt it draws; \<open>date_now\<close> and \<open>now_iso\<close> are the readings of
  \<open>Date.now()\<close> and \<open>new Date().toISOString()\<close>. The session is \<open>req.session.userId\<close>.
  Destructuring a \<open>null\<close> body throws inside the \<open>try\<close>.
\<close>

definition register ::
  "(string \<Rightarrow> string \<Rightarrow> string) \<Rightarrow> string \<Rightarrow> int \<Rightarrow> string \<Rightarrow>
   json \<Rightarrow> int option \<Rightarrow> files \<Rightarrow> reply \<times> int option \<times> files" where
  "register bcrypt_hash salt date_now now_iso body session fs =
     (if body = JNull then (internal_error, session, fs)
      else
        let username' = body_username body;
            password' = body_password body
        in
          if username' = [] \<or> length username' < 2
          then (failure 400 invalid_name_msg, session, fs)
          else if password' = [] \<or> length password' < 6
          then (failure 400 short_password_msg, session, fs)
          else if \<not> name_pattern username'
          then (failure 400 bad_charset_msg, session, fs)
          else
            case readJson (USERS_FILE fs) of
              Inl e \<Rightarrow> (internal_error, session, fs)
            | Inr users \<Rightarrow>
                (case List.find (same_name username') users of
                   Some u \<Rightarrow> (failure 409 ''Usuario ya existe'', session, fs)
                 | None \<Rightarrow>
                     let newUser = \<lparr>user_id = date_now, username = username',
                                    passwordHash = bcrypt_hash password' salt,
                                    avatarUrl = JStr [], createdAt = now_iso\<rparr>
                     in (Reply 200 (JObj [(''ok'', JBool True),
                                          (''username'', JStr (username newUser)),
                                          (''id'', JNum (user_id newUser))]),
                         Some (user_id newUser),
                         fs\<lparr>USERS_FILE := writeJson (users @ [newUser])\<rparr>)))"

text \<open>\<open>POST /api/login\<close>. \<open>bcrypt_compare\<close> is \<open>bcrypt.compare\<close>.\<close>

definition login ::
  "(string \<Rightarrow> string \<Rightarrow> bool) \<Rightarrow> json \<Rightarrow> int option \<Rightarrow> files \<Rightarrow>
   reply \<times> int option \<times> files" where
  "login bcrypt_compare body session fs =
     (if body = JNull then (internal_error, session, fs)
      else
        let username' = body_username body;
            password' = body_password body
        in
          if username' = [] \<or> password' = []
          then (failure 400 ''Credenciales incompletas'', session, fs)
          else
            case readJson (USERS_FILE fs) of
              Inl e \<Rightarrow> (internal_error, session, fs)
            | Inr users \<Rightarrow>
                (case List.find (same_name username') users of
                   None \<Rightarrow> (failure 401 invalid_credentials_msg, session, fs)
                 | Some user \<Rightarrow>
                     if \<not> bcrypt_compare password' (passwordHash user)
                     then (failure 401 invalid_credentials_msg, session, fs)
                     else (Reply 200 (JObj [(''ok'', JBool True),
                                            (''username'', JStr (username user)),
                                            (''id'', JNum (user_id user)),
                                            (''avatarUrl'',
                                               js_or (Some (avatarUrl user)) (JStr []))]),
                           Some (user_id user), fs)))"

text \<open>\<open>Array.prototype.findIndex\<close>, \<open>None\<close> for \<open>-1\<close>.\<close>

fun findIndex :: "('a \<Rightarrow> bool) \<Rightarrow> 'a list \<Rightarrow> nat option" where
  "findIndex P [] = None"
| "findIndex P (x # xs) = (if P x then Some 0 else map_option Suc (findIndex P xs))"

text \<open>
  \<open>POST /api/me/avatar\<close>. The handler has no \<open>try\<close>: a \<open>null\<close> body or an unreadable
  file rejects its promise. A session id of 0 counts as no session (\<open>!0\<close>).
\<close>

definition me_avatar :: "json \<Rightarrow> int option \<Rightarrow> files \<Rightarrow> reply \<times> files" where
  "me_avatar body session fs =
     (case session of
        None \<Rightarrow> (failure 401 ''No autenticado'', fs)
      | Some userId \<Rightarrow>
          if userId = 0 then (failure 401 ''No autenticado'', fs)
          else if body = JNull then (Unhandled_Rejection, fs)
          else
            (case readJson (USERS_FILE fs) of
               Inl e \<Rightarrow> (Unhandled_Rejection, fs)
             | Inr users \<Rightarrow>
                 (case findIndex (\<lambda>u. user_id u = userId) users of
                    None \<Rightarrow> (failure 404 ''Usuario no encontrado'', fs)
                  | Some idx \<Rightarrow>
                      (ok_reply,
                       fs\<lparr>USERS_FILE := writeJson
                            (users[idx := (users ! idx)
                               \<lparr>avatarUrl := js_or (get_prop body ''avatarUrl'') (JStr [])\<rparr>])\<rparr>))))"

text \<open>
  What the login lookup sees of an account: the first record whose name equals \<open>n\<close> up
  to letter case carries exactly the name \<open>n\<close>, the hash \<open>h\<close> and the id \<open>i\<close>.
\<close>

definition has_account :: "string \<Rightarrow> string \<Rightarrow> int \<Rightarrow> files \<Rightarrow> bool" where
  "has_account n h i fs =
     (case readJson (USERS_FILE fs) of
        Inl e \<Rightarrow> False
      | Inr users \<Rightarrow>
          (case List.find (same_name n) users of
             None \<Rightarrow> False
           | Some u \<Rightarrow> username u = n \<and> passwordHash u = h \<and> user_id u = i))"

section \<open>Avatar lookup\<close>

text \<open>
  The two outbound requests, named by the endpoint and the value put into the URL, and
  what \<open>fetch\<close> gives back: a thrown error, or a response with its \<open>ok\<close> flag and the
  result of \<open>.json()\<close> (\<open>None\<close> when the body does not parse, which throws).
\<close>

datatype outbound = Get_By_Username string | Avatar_Headshot json

datatype fetched = Fetch_Failed | Response bool "json option"

text \<open>\<open>j?.data?.[0]?.imageUrl\<close>.\<close>

definition nullish :: "json option \<Rightarrow> bool" where
  "nullish v = (v = None \<or> v = Some JNull)"

definition first_image :: "json \<Rightarrow> json option" where
  "first_image j =
     (if j = JNull then None
      else let d = get_prop j ''data'' in
        if nullish d then None
        else let e = index0 (the d) in
          if nullish e then None
          else get_prop (the e) ''imageUrl'')"

text \<open>
  \<open>GET /api/avatar/:username\<close>, with the route parameter as a string. The result pairs
  the reply with the outbound requests made, in order.
\<close>

definition avatar :: "(outbound \<Rightarrow> fetched) \<Rightarrow> string \<Rightarrow> reply \<times> outbound list" where
  "avatar fetch param =
     (let username' = trim param in
      if username' = [] then (failure 400 ''Falta username'', [])
      else
        let c1 = Get_By_Username username' in
        (case fetch c1 of
           Fetch_Failed \<Rightarrow> (internal_error, [c1])
         | Response ok None \<Rightarrow>
             (if \<not> ok then (failure 502 ''Error consultando Roblox'', [c1])
              else (internal_error, [c1]))
         | Response ok (Some ud) \<Rightarrow>
             (if \<not> ok then (failure 502 ''Error consultando Roblox'', [c1])
              else if \<not> truthy ud \<or> falsy (get_prop ud ''Id'')
              then (failure 404 ''Usuario Roblox no encontrado'', [c1])
              else
                let uid = the (get_prop ud ''Id'');
                    c2 = Avatar_Headshot uid
                in
                (case fetch c2 of
                   Fetch_Failed \<Rightarrow> (internal_error, [c1, c2])
                 | Response ok2 None \<Rightarrow>
                     (if \<not> ok2
                      then (failure 502 ''No se pudo obtener miniatura'', [c1, c2])
                      else (internal_error, [c1, c2]))
                 | Response ok2 (Some j) \<Rightarrow>
                     (if \<not> ok2
                      then (failure 502 ''No se pudo obtener miniatura'', [c1, c2])
                      else
                        let imageUrl = js_or (first_image j) (JStr []) in
                        if \<not> truthy imageUrl then (failure 404 ''Sin imagen'', [c1, c2])
                        else (Reply 200 (JObj [(''imageUrl'', imageUrl)]), [c1, c2]))))))"

section \<open>Requests in sequence\<close>

text \<open>
  The requests that write a data file, the login, and a restart of the server
  (\<open>ensureDataFiles\<close> runs again). Each request brings the readings its handler takes
  and the session of the client that sends it; \<open>serve\<close> gives the files it leaves, and
  \<open>serve_all\<close> serves a list of requests one after the other.
\<close>

datatype request =
    Register string int string json "int option"
  | Login json "int option"
  | Me_Avatar json "int option"
  | Save_Response string json
  | Save_Login string json
  | Restart

fun serve ::
  "(string \<Rightarrow> string \<Rightarrow> string) \<Rightarrow> (string \<Rightarrow> string \<Rightarrow> bool) \<Rightarrow>
   request \<Rightarrow> files \<Rightarrow> files" where
  "serve bcrypt_hash bcrypt_compare (Register salt date_now now_iso body session) fs
     = snd (snd (register bcrypt_hash salt date_now now_iso body session fs))"
| "serve bcrypt_hash bcrypt_compare (Login body session) fs
     = snd (snd (login bcrypt_compare body session fs))"
| "serve bcrypt_hash bcrypt_compare (Me_Avatar body session) fs
     = snd (me_avatar body session fs)"
| "serve bcrypt_hash bcrypt_compare (Save_Response now_iso body) fs
     = snd (saveResponse now_iso body fs)"
| "serve bcrypt_hash bcrypt_compare (Save_Login now_iso body) fs
     = snd (saveLogin now_iso body fs)"
| "serve bcrypt_hash bcrypt_compare Restart fs = ensureDataFiles fs"

fun serve_all ::
  "(string \<Rightarrow> string \<Rightarrow> string) \<Rightarrow> (string \<Rightarrow> string \<Rightarrow> bool) \<Rightarrow>
   request list \<Rightarrow> files \<Rightarrow> files" where
  "serve_all bcrypt_hash bcrypt_compare [] fs = fs"
| "serve_all bcrypt_hash bcrypt_compare (r # rs) fs
     = serve_all bcrypt_hash bcrypt_compare rs (serve bcrypt_hash bcrypt_compare r fs)"

section \<open>Sample data\<close>

text \<open>
  A toy stand-in for bcrypt (a salt of two characters followed by the reversed
  password), stores with one, two and three registered users, data directories with
  files absent and an upstream that knows no user, for evaluating the handlers on
  concrete requests.
\<close>

definition demo_hash :: "string \<Rightarrow> string \<Rightarrow> string" where
  "demo_hash password' salt = salt @ rev password'"

definition demo_compare :: "string \<Rightarrow> string \<Rightarrow> bool" where
  "demo_compare password' h = (drop 2 h = rev password')"

definition ana :: user where
  "ana = \<lparr>user_id = 1000, username = ''Ana_01'',
          passwordHash = demo_hash ''secret1'' ''na'',
          avatarUrl = JStr [], createdAt = ''2024-01-01T00:00:00.000Z''\<rparr>"

definition store0 :: files where
  "store0 = \<lparr>USERS_FILE = Rows [ana], RESP_FILE = Rows [], LOGINS_FILE = Rows []\<rparr>"

definition credentials :: "string \<Rightarrow> string \<Rightarrow> json" where
  "credentials u p = JObj [(''username'', JStr u), (''password'', JStr p)]"

definition nested_audit :: json where
  "nested_audit =
     JObj [(''username'', JStr ''eve''),
           (''avatarUrl'', JObj [(''password'', JStr ''hunter2''),
                                 (''passwordHash'', JStr ''na2retnuh'')])]"

definition bob :: user where
  "bob = \<lparr>user_id = 2000, username = ''Bob_02'',
          passwordHash = demo_hash ''secret2'' ''nb'',
          avatarUrl = JStr [], createdAt = ''2024-02-02T00:00:00.000Z''\<rparr>"

definition store1 :: files where
  "store1 = \<lparr>USERS_FILE = Rows [ana, bob], RESP_FILE = Rows [], LOGINS_FILE = Rows []\<rparr>"

definition no_files :: files where
  "no_files = \<lparr>USERS_FILE = Missing, RESP_FILE = Missing, LOGINS_FILE = Missing\<rparr>"

definition only_users :: files where
  "only_users = \<lparr>USERS_FILE = Rows [ana], RESP_FILE = Missing, LOGINS_FILE = Blank\<rparr>"

definition carol_body :: json where
  "carol_body = credentials ''carol-3'' ''secret3''"

definition later_requests :: "request list" where
  "later_requests =
     [Save_Login ''2024-02-03T00:00:00.000Z'' (credentials ''Bob_02'' ''secret2''),
      Me_Avatar (JObj [(''avatarUrl'', JStr ''http://img/bob.png'')]) (Some 2000),
      Restart,
      Register ''nc'' 3000 ''2024-03-03T00:00:00.000Z'' carol_body None]"

definition store2 :: files where
  "store2 =
     \<lparr>USERS_FILE = Rows [ana, bob\<lparr>avatarUrl := JStr ''http://img/bob.png''\<rparr>,
                          \<lparr>user_id = 3000, username = ''carol-3'',
                           passwordHash = demo_hash ''secret3'' ''nc'',
                           avatarUrl = JStr [], createdAt = ''2024-03-03T00:00:00.000Z''\<rparr>],
      RESP_FILE = Rows [],
      LOGINS_FILE = Rows [JObj [(''username'', JStr ''Bob_02''), (''avatarUrl'', JStr []),
                                (''timestamp'', JStr ''2024-02-03T00:00:00.000Z'')]]\<rparr>"

definition lookup_only :: "outbound \<Rightarrow> fetched" where
  "lookup_only c =
     (case c of
        Get_By_Username n \<Rightarrow>
          Response True (Some (JObj [(''errorMessage'', JStr ''User not found'')]))
      | Avatar_Headshot i \<Rightarrow>
          Response True
            (Some (JObj [(''data'', JArr [JObj [(''imageUrl'', JStr ''http://img/1.png'')]])])))"

lemma body_credentials:
  "credentials u p \<noteq> JNull"
  "body_username (credentials u p) = trim u"
  "body_password (credentials u p) = p"
  by (simp_all add: credentials_def body_username_def body_password_def)

lemma trims:
  "trim ''ana_01'' = ''ana_01''"
  "trim ''Ana_01'' = ''Ana_01''"
  "trim ''unknownUser123'' = ''unknownUser123''"
  "trim ''ANA_01'' = ''ANA_01''"
  "trim ''nobody'' = ''nobody''"
  "trim ''Bob_02'' = ''Bob_02''"
  "trim '' bob_02 '' = ''bob_02''"
  by code_simp+

lemma lowers:
  "toLowerCase ''ana_01'' = ''ana_01''"
  "toLowerCase ''ANA_01'' = ''ana_01''"
  "toLowerCase ''Ana_01'' = ''ana_01''"
  "toLowerCase ''nobody'' = ''nobody''"
  "toLowerCase ''Bob_02'' = ''bob_02''"
  "toLowerCase ''bob_02'' = ''bob_02''"
  by code_simp+

lemma patterns:
  "name_pattern ''ana_01''"
  "name_pattern ''Bob_02''"
  by code_simp+

lemma carol_name: "trim ''carol-3'' = ''carol-3''" "name_pattern ''carol-3''"
  "toLowerCase ''carol-3'' = ''carol-3''"
  by code_simp+

section \<open>What the audit record carries\<close>

lemma keys_login_entry:
  "keys (login_entry now_iso body) = [''username'', ''avatarUrl'', ''timestamp'']"
  by (simp add: login_entry_def Let_def)

lemma login_entry_no_password:
  "get_prop (login_entry now_iso body) ''password'' = None"
  "get_prop (login_entry now_iso body) ''passwordHash'' = None"
  by (simp_all add: login_entry_def Let_def)

text \<open>The entry's \<open>avatarUrl\<close> is the body's own value, whatever JSON value that is.\<close>

lemma login_entry_avatarUrl:
  "get_prop (login_entry now_iso (JObj kvs)) ''avatarUrl''
     = Some (js_or (map_of kvs ''avatarUrl'') (JStr []))"
  by (simp add: login_entry_def Let_def)

text \<open>
  C1. A body whose \<open>avatarUrl\<close> is an object is copied into the record with everything
  the object holds: \<open>POST /api/saveLogin\<close> with an \<open>avatarUrl\<close> that carries a
  \<open>password\<close> and a \<open>passwordHash\<close> writes both into the logins file, inside the
  record's \<open>avatarUrl\<close>. (Properties named \<open>password\<close> or \<open>passwordHash\<close> of the body
  itself are dropped, \<open>login_entry_no_password\<close>; \<open>username\<close> is turned into a string,
  \<open>avatarUrl\<close> is not.)
\<close>

theorem saveLogin_nested_password:
  "saveLogin ''2026-01-01T00:00:00.000Z'' nested_audit store0
     = (ok_reply,
        store0\<lparr>LOGINS_FILE :=
          Rows [JObj [(''username'', JStr ''eve''),
                      (''avatarUrl'', JObj [(''password'', JStr ''hunter2''),
                                            (''passwordHash'', JStr ''na2retnuh'')]),
                      (''timestamp'', JStr ''2026-01-01T00:00:00.000Z'')]]\<rparr>)
   \<and> get_prop (JObj [(''password'', JStr ''hunter2''),
                      (''passwordHash'', JStr ''na2retnuh'')]) ''password''
       = Some (JStr ''hunter2'')
   \<and> get_prop (JObj [(''password'', JStr ''hunter2''),
                      (''passwordHash'', JStr ''na2retnuh'')]) ''passwordHash''
       = Some (JStr ''na2retnuh'')"
proof -
  have "trim ''eve'' = ''eve''" by code_simp
  then show ?thesis
    by (simp add: saveLogin_def login_entry_def nested_audit_def store0_def writeJson_def
                  ok_reply_def)
qed

section \<open>Survey responses are appended in order\<close>

lemma saveResponse_readable:
  assumes "readJson (RESP_FILE fs) = Inr arr"
  shows "saveResponse now_iso body fs
           = (ok_reply, fs\<lparr>RESP_FILE := Rows (arr @ [stamp now_iso body])\<rparr>)"
  using assms by (simp add: saveResponse_def writeJson_def)

text \<open>
  C9. Starting from a responses file that reads as the array \<open>arr\<close>, serving \<open>N\<close>
  requests to \<open>POST /api/saveResponse\<close> one after the other answers each with
  \<open>{ok: true}\<close> and leaves a file that reads as \<open>arr\<close> followed by the \<open>N\<close> stamped
  bodies in the order of submission: exactly \<open>N\<close> more records than before.
\<close>

theorem saveResponses_appends_in_order:
  assumes "readJson (RESP_FILE fs) = Inr arr"
  shows "readJson (RESP_FILE (snd (saveResponses reqs fs))) = Inr (arr @ map stamped reqs)
       \<and> fst (saveResponses reqs fs) = replicate (length reqs) ok_reply
       \<and> length (arr @ map stamped reqs) = length arr + length reqs"
  using assms
proof (induction reqs arbitrary: fs arr)
  case Nil
  then show ?case by simp
next
  case (Cons r reqs)
  obtain t b where r: "r = (t, b)" by (cases r)
  let ?fs1 = "fs\<lparr>RESP_FILE := Rows (arr @ [stamp t b])\<rparr>"
  have step: "saveResponse t b fs = (ok_reply, ?fs1)"
    using Cons.prems by (rule saveResponse_readable)
  have "readJson (RESP_FILE ?fs1) = Inr (arr @ [stamp t b])" by simp
  from Cons.IH [OF this] show ?case
    by (simp add: r step stamped_def case_prod_beta)
qed

theorem saveResponses_appends_in_order_witness:
  "readJson (RESP_FILE store0) = Inr []
   \<and> readJson (RESP_FILE (snd (saveResponses
        [(''t1'', JObj [(''q'', JNum 1)]), (''t2'', JObj [(''q'', JNum 2)])] store0)))
       = Inr [JObj [(''q'', JNum 1), (''timestamp'', JStr ''t1'')],
              JObj [(''q'', JNum 2), (''timestamp'', JStr ''t2'')]]"
proof -
  have h: "readJson (RESP_FILE store0) = Inr []"
    by (simp add: store0_def)
  show ?thesis
    using saveResponses_appends_in_order
            [OF h, of "[(''t1'', JObj [(''q'', JNum 1)]), (''t2'', JObj [(''q'', JNum 2)])]"]
    by (simp add: h stamped_def stamp_def)
qed

section \<open>The time stamp of a survey response\<close>

lemma stamp_object:
  "get_prop (stamp now_iso (JObj kvs)) ''timestamp'' = Some (JStr now_iso)"
  by (simp add: stamp_def update_conv')

text \<open>
  C10. A body that is a JSON array is stored as it came: the record written to the
  responses file has no \<open>timestamp\<close> property at all. (For a body that is an object
  the stored \<open>timestamp\<close> is the server's reading, \<open>stamp_object\<close>.)
\<close>

theorem saveResponse_array_body_unstamped:
  "saveResponse ''2026-01-01T00:00:00.000Z'' (JArr [JNum 1]) store0
     = (ok_reply, store0\<lparr>RESP_FILE := Rows [JArr [JNum 1]]\<rparr>)
   \<and> get_prop (JArr [JNum 1]) ''timestamp'' = None"
  by (simp add: saveResponse_def stamp_def store0_def writeJson_def)

section \<open>Registration\<close>

lemma name_pattern_long: "name_pattern s \<Longrightarrow> s \<noteq> [] \<and> \<not> length s < 2"
  by (auto simp: name_pattern_def)

lemma find_same_name_Some:
  assumes "u \<in> set users" and "same_name n u"
  shows "\<exists>v. List.find (same_name n) users = Some v"
  using assms by (cases "List.find (same_name n) users") (auto simp: find_None_iff)

lemma register_fresh:
  assumes "body \<noteq> JNull"
    and "name_pattern (body_username body)"
    and "6 \<le> length (body_password body)"
    and "readJson (USERS_FILE fs) = Inr users"
    and "List.find (same_name (body_username body)) users = None"
  shows "register bcrypt_hash salt date_now now_iso body session fs
           = (Reply 200 (JObj [(''ok'', JBool True),
                               (''username'', JStr (body_username body)),
                               (''id'', JNum date_now)]),
              Some date_now,
              fs\<lparr>USERS_FILE := Rows (users @
                   [\<lparr>user_id = date_now, username = body_username body,
                     passwordHash = bcrypt_hash (body_password body) salt,
                     avatarUrl = JStr [], createdAt = now_iso\<rparr>])\<rparr>)"
proof -
  have "body_password body \<noteq> []"
    using assms(3) by auto
  then show ?thesis
    using assms name_pattern_long [OF assms(2)]
    by (simp add: register_def Let_def writeJson_def)
qed

lemma register_200D:
  assumes "register bcrypt_hash salt date_now now_iso body session fs
             = (Reply 200 r, session', fs')"
  shows "body \<noteq> JNull \<and> name_pattern (body_username body)
       \<and> 6 \<le> length (body_password body)
       \<and> (\<exists>users. readJson (USERS_FILE fs) = Inr users
              \<and> List.find (same_name (body_username body)) users = None)"
  using assms
  by (auto simp: register_def Let_def failure_def internal_error_def
           split: if_splits sum.splits option.splits)

subsection \<open>A name already taken\<close>

text \<open>
  C2. When the users file holds a user whose name equals the submitted name up to letter
  case, \<open>POST /api/register\<close> answers 409 \<open>Usuario ya existe\<close> and changes neither the
  file nor the session, provided the request passes the checks that come first: the
  trimmed name matches \<open>[A-Za-z0-9_-]{2,32}\<close> and the password has at least 6 characters.
\<close>

theorem register_conflict:
  assumes "body \<noteq> JNull"
    and "name_pattern (body_username body)"
    and "6 \<le> length (body_password body)"
    and "readJson (USERS_FILE fs) = Inr users"
    and "u \<in> set users"
    and "toLowerCase (username u) = toLowerCase (body_username body)"
  shows "register bcrypt_hash salt date_now now_iso body session fs
           = (failure 409 ''Usuario ya existe'', session, fs)"
proof -
  have "same_name (body_username body) u"
    using assms(6) by (simp add: same_name_def)
  then obtain v where "List.find (same_name (body_username body)) users = Some v"
    using find_same_name_Some assms(5) by blast
  moreover have "body_password body \<noteq> []"
    using assms(3) by auto
  ultimately show ?thesis
    using assms(1-4) name_pattern_long [OF assms(2)]
    by (simp add: register_def Let_def)
qed

theorem register_conflict_witness:
  "credentials ''ana_01'' ''other1'' \<noteq> JNull
   \<and> name_pattern (body_username (credentials ''ana_01'' ''other1''))
   \<and> 6 \<le> length (body_password (credentials ''ana_01'' ''other1''))
   \<and> readJson (USERS_FILE store0) = Inr [ana]
   \<and> ana \<in> set [ana]
   \<and> toLowerCase (username ana) = toLowerCase (body_username (credentials ''ana_01'' ''other1''))
   \<and> register demo_hash ''nb'' 2000 ''2024-02-02T00:00:00.000Z''
        (credentials ''ana_01'' ''other1'') None store0
       = (failure 409 ''Usuario ya existe'', None, store0)"
proof -
  have a: "credentials ''ana_01'' ''other1'' \<noteq> JNull"
    by (simp add: body_credentials)
  have b: "name_pattern (body_username (credentials ''ana_01'' ''other1''))"
    by (simp add: body_credentials trims patterns)
  have c: "6 \<le> length (body_password (credentials ''ana_01'' ''other1''))"
    by (simp add: body_credentials)
  have d: "readJson (USERS_FILE store0) = Inr [ana]"
    by (simp add: store0_def)
  have e: "ana \<in> set [ana]"
    by simp
  have f: "toLowerCase (username ana)
             = toLowerCase (body_username (credentials ''ana_01'' ''other1''))"
    by (simp add: body_credentials trims lowers ana_def)
  show ?thesis
    using register_conflict [OF a b c d e f] a b c d e f by simp
qed

text \<open>
  With a password of fewer than 6 characters the same request is answered 400: the
  password is checked before the users file is read.
\<close>

theorem register_short_password_counterexample:
  "readJson (USERS_FILE store0) = Inr [ana]
   \<and> toLowerCase (username ana) = toLowerCase (body_username (credentials ''ana_01'' ''abc''))
   \<and> register demo_hash ''nb'' 2000 ''2024-02-02T00:00:00.000Z''
        (credentials ''ana_01'' ''abc'') None store0
       = (failure 400 short_password_msg, None, store0)
   \<and> failure 400 short_password_msg \<noteq> failure 409 ''Usuario ya existe''"
proof -
  have "body_username (credentials ''ana_01'' ''abc'') = ''ana_01''"
    by (simp add: body_credentials trims)
  then show ?thesis
    by (simp add: register_def body_credentials store0_def ana_def lowers failure_def)
qed

subsection \<open>The id of a new user\<close>

text \<open>
  C6. A successful \<open>POST /api/register\<close> appends one user whose id is the reading of
  \<open>Date.now()\<close> taken for the request, and puts that id into the session and the reply.
  The id differs from the id of every user already in the file whenever no stored id
  equals that reading.
\<close>

theorem register_id_is_clock:
  assumes "register bcrypt_hash salt date_now now_iso body session fs
             = (Reply 200 r, session', fs')"
    and "readJson (USERS_FILE fs) = Inr users"
  shows "\<exists>newUser.
           USERS_FILE fs' = Rows (users @ [newUser])
         \<and> user_id newUser = date_now
         \<and> session' = Some date_now
         \<and> r = JObj [(''ok'', JBool True), (''username'', JStr (username newUser)),
                     (''id'', JNum date_now)]
         \<and> (date_now \<notin> user_id ` set users
              \<longrightarrow> (\<forall>u \<in> set users. user_id u \<noteq> user_id newUser))"
proof -
  from register_200D [OF assms(1)] assms(2) have
    ok: "body \<noteq> JNull" "name_pattern (body_username body)"
        "6 \<le> length (body_password body)"
    and fresh: "List.find (same_name (body_username body)) users = None"
    by auto
  let ?nu = "\<lparr>user_id = date_now, username = body_username body,
              passwordHash = bcrypt_hash (body_password body) salt,
              avatarUrl = JStr [], createdAt = now_iso\<rparr>"
  have "USERS_FILE fs' = Rows (users @ [?nu]) \<and> session' = Some date_now
      \<and> r = JObj [(''ok'', JBool True), (''username'', JStr (username ?nu)),
                  (''id'', JNum date_now)]"
    using register_fresh [OF ok assms(2) fresh, of bcrypt_hash salt date_now now_iso session]
          assms(1)
    by simp
  moreover have "date_now \<notin> user_id ` set users
                   \<longrightarrow> (\<forall>u \<in> set users. user_id u \<noteq> user_id ?nu)"
    by auto
  ultimately show ?thesis
    by (intro exI [of _ ?nu]) simp
qed

lemma register_bob:
  "register demo_hash ''nb'' 2000 ''2024-02-02T00:00:00.000Z''
     (credentials ''Bob_02'' ''secret2'') None store0
   = (Reply 200 (JObj [(''ok'', JBool True), (''username'', JStr ''Bob_02''),
                       (''id'', JNum 2000)]),
      Some 2000, store1)"
proof -
  have "body_username (credentials ''Bob_02'' ''secret2'') = ''Bob_02''"
    by (simp add: body_credentials trims)
  then show ?thesis
    by (simp add: register_def Let_def body_credentials patterns store0_def store1_def ana_def
                  bob_def same_name_def lowers writeJson_def)
qed

theorem register_id_is_clock_witness:
  "register demo_hash ''nb'' 2000 ''2024-02-02T00:00:00.000Z''
     (credentials ''Bob_02'' ''secret2'') None store0
   = (Reply 200 (JObj [(''ok'', JBool True), (''username'', JStr ''Bob_02''),
                       (''id'', JNum 2000)]),
      Some 2000, store1)
   \<and> readJson (USERS_FILE store0) = Inr [ana]
   \<and> 2000 \<notin> user_id ` set [ana]
   \<and> (\<exists>newUser. USERS_FILE store1 = Rows ([ana] @ [newUser])
          \<and> user_id newUser = 2000 \<and> user_id ana \<noteq> user_id newUser)"
proof -
  have b: "readJson (USERS_FILE store0) = Inr [ana]"
    by (simp add: store0_def)
  have c: "2000 \<notin> user_id ` set [ana]"
    by (simp add: ana_def)
  show ?thesis
    using register_id_is_clock
            [where bcrypt_hash = demo_hash, OF register_bob b]
          register_bob b c
    by auto
qed

text \<open>
  Nothing compares the reading with the stored ids: a registration served in the
  millisecond in which an earlier one was served gets the id of the earlier user.
\<close>

theorem register_same_millisecond_counterexample:
  "readJson (USERS_FILE store0) = Inr [ana]
   \<and> user_id ana = 1000
   \<and> register demo_hash ''nb'' 1000 ''2024-02-02T00:00:00.000Z''
        (credentials ''Bob_02'' ''secret2'') None store0
       = (Reply 200 (JObj [(''ok'', JBool True), (''username'', JStr ''Bob_02''),
                           (''id'', JNum 1000)]),
          Some 1000,
          store0\<lparr>USERS_FILE := Rows [ana, bob\<lparr>user_id := 1000\<rparr>]\<rparr>)"
proof -
  have "body_username (credentials ''Bob_02'' ''secret2'') = ''Bob_02''"
    by (simp add: body_credentials trims)
  then show ?thesis
    by (simp add: register_def Let_def body_credentials patterns store0_def ana_def
                  bob_def same_name_def lowers writeJson_def)
qed

subsection \<open>Files absent at start-up\<close>

text \<open>
  C5. \<open>ensureDataFiles\<close>, run when the server starts, leaves each of the three data
  files as it is when the file exists and writes the empty array into it when it is
  absent, each file on its own. A file that was absent then reads as the empty
  sequence; and when the users file was absent, a well-formed registration after it
  succeeds, leaving the new user as the only record.
\<close>

theorem ensureDataFiles_creates_missing:
  "USERS_FILE (ensureDataFiles fs)
     = (if USERS_FILE fs = Missing then Rows [] else USERS_FILE fs)
   \<and> RESP_FILE (ensureDataFiles fs)
     = (if RESP_FILE fs = Missing then Rows [] else RESP_FILE fs)
   \<and> LOGINS_FILE (ensureDataFiles fs)
     = (if LOGINS_FILE fs = Missing then Rows [] else LOGINS_FILE fs)
   \<and> (USERS_FILE fs = Missing \<longrightarrow> readJson (USERS_FILE (ensureDataFiles fs)) = Inr [])
   \<and> (RESP_FILE fs = Missing \<longrightarrow> readJson (RESP_FILE (ensureDataFiles fs)) = Inr [])
   \<and> (LOGINS_FILE fs = Missing \<longrightarrow> readJson (LOGINS_FILE (ensureDataFiles fs)) = Inr [])
   \<and> (USERS_FILE fs = Missing \<and> body \<noteq> JNull \<and> name_pattern (body_username body)
        \<and> 6 \<le> length (body_password body)
       \<longrightarrow> register bcrypt_hash salt date_now now_iso body session (ensureDataFiles fs)
           = (Reply 200 (JObj [(''ok'', JBool True),
                               (''username'', JStr (body_username body)),
                               (''id'', JNum date_now)]),
              Some date_now,
              (ensureDataFiles fs)\<lparr>USERS_FILE := Rows
                   [\<lparr>user_id = date_now, username = body_username body,
                     passwordHash = bcrypt_hash (body_password body) salt,
                     avatarUrl = JStr [], createdAt = now_iso\<rparr>]\<rparr>))"
proof -
  have files: "USERS_FILE (ensureDataFiles fs)
                 = (if USERS_FILE fs = Missing then Rows [] else USERS_FILE fs)"
              "RESP_FILE (ensureDataFiles fs)
                 = (if RESP_FILE fs = Missing then Rows [] else RESP_FILE fs)"
              "LOGINS_FILE (ensureDataFiles fs)
                 = (if LOGINS_FILE fs = Missing then Rows [] else LOGINS_FILE fs)"
    by (simp_all add: ensureDataFiles_def ensure_def split: data_file.splits)
  have reg: "register bcrypt_hash salt date_now now_iso body session (ensureDataFiles fs)
           = (Reply 200 (JObj [(''ok'', JBool True),
                               (''username'', JStr (body_username body)),
                               (''id'', JNum date_now)]),
              Some date_now,
              (ensureDataFiles fs)\<lparr>USERS_FILE := Rows
                   [\<lparr>user_id = date_now, username = body_username body,
                     passwordHash = bcrypt_hash (body_password body) salt,
                     avatarUrl = JStr [], createdAt = now_iso\<rparr>]\<rparr>)"
    if "USERS_FILE fs = Missing" "body \<noteq> JNull" "name_pattern (body_username body)"
       "6 \<le> length (body_password body)"
  proof -
    have rd: "readJson (USERS_FILE (ensureDataFiles fs)) = Inr []"
      using that(1) by (simp add: files)
    have fresh: "List.find (same_name (body_username body)) [] = None"
      by simp
    show ?thesis
      using register_fresh [OF that(2-4) rd fresh,
                            of bcrypt_hash salt date_now now_iso session]
      by simp
  qed
  show ?thesis
    using reg by (simp add: files)
qed

theorem ensureDataFiles_creates_missing_witness:
  "RESP_FILE only_users = Missing
   \<and> ensureDataFiles only_users
       = \<lparr>USERS_FILE = Rows [ana], RESP_FILE = Rows [], LOGINS_FILE = Blank\<rparr>
   \<and> readJson (RESP_FILE (ensureDataFiles only_users)) = Inr []
   \<and> USERS_FILE no_files = Missing
   \<and> credentials ''Bob_02'' ''secret2'' \<noteq> JNull
   \<and> name_pattern (body_username (credentials ''Bob_02'' ''secret2''))
   \<and> 6 \<le> length (body_password (credentials ''Bob_02'' ''secret2''))
   \<and> ensureDataFiles no_files
       = \<lparr>USERS_FILE = Rows [], RESP_FILE = Rows [], LOGINS_FILE = Rows []\<rparr>
   \<and> readJson (USERS_FILE (ensureDataFiles no_files)) = Inr []
   \<and> register demo_hash ''nb'' 2000 ''2024-02-02T00:00:00.000Z''
        (credentials ''Bob_02'' ''secret2'') None (ensureDataFiles no_files)
       = (Reply 200 (JObj [(''ok'', JBool True), (''username'', JStr ''Bob_02''),
                           (''id'', JNum 2000)]),
          Some 2000,
          \<lparr>USERS_FILE = Rows [bob], RESP_FILE = Rows [], LOGINS_FILE = Rows []\<rparr>)"
proof -
  have a: "USERS_FILE no_files = Missing" "RESP_FILE no_files = Missing"
          "LOGINS_FILE no_files = Missing"
    by (simp_all add: no_files_def)
  have a': "USERS_FILE only_users = Rows [ana]" "RESP_FILE only_users = Missing"
           "LOGINS_FILE only_users = Blank"
    by (simp_all add: only_users_def)
  have b: "credentials ''Bob_02'' ''secret2'' \<noteq> JNull"
    by (simp add: body_credentials)
  have c: "name_pattern (body_username (credentials ''Bob_02'' ''secret2''))"
    by (simp add: body_credentials trims patterns)
  have d: "6 \<le> length (body_password (credentials ''Bob_02'' ''secret2''))"
    by (simp add: body_credentials)
  have e: "ensureDataFiles no_files
             = \<lparr>USERS_FILE = Rows [], RESP_FILE = Rows [], LOGINS_FILE = Rows []\<rparr>"
    using ensureDataFiles_creates_missing [of no_files] a
    by (cases "ensureDataFiles no_files") simp
  have e': "ensureDataFiles only_users
             = \<lparr>USERS_FILE = Rows [ana], RESP_FILE = Rows [], LOGINS_FILE = Blank\<rparr>"
    using ensureDataFiles_creates_missing [of only_users] a'
    by (cases "ensureDataFiles only_users") simp
  show ?thesis
    using ensureDataFiles_creates_missing
            [where fs = no_files and body = "credentials ''Bob_02'' ''secret2''"
               and bcrypt_hash = demo_hash and salt = "''nb''" and date_now = 2000
               and now_iso = "''2024-02-02T00:00:00.000Z''" and session = None]
          ensureDataFiles_creates_missing [of only_users]
          a a' b c d e e'
    by (simp add: body_credentials trims bob_def)
qed

text \<open>
  \<open>readJson\<close> itself creates nothing: on an absent file it fails, the registration is
  answered 500 and the file is still absent afterwards.
\<close>

theorem readJson_missing_counterexample:
  "USERS_FILE no_files = Missing
   \<and> readJson (USERS_FILE no_files) = Inl ENOENT
   \<and> register demo_hash ''nb'' 2000 ''2024-02-02T00:00:00.000Z''
        (credentials ''Bob_02'' ''secret2'') None no_files
       = (internal_error, None, no_files)"
proof -
  have "body_username (credentials ''Bob_02'' ''secret2'') = ''Bob_02''"
    by (simp add: body_credentials trims)
  then show ?thesis
    by (simp add: register_def Let_def body_credentials patterns no_files_def)
qed

section \<open>Login\<close>

lemma login_unknown:
  assumes "body \<noteq> JNull"
    and "body_username body \<noteq> []" and "body_password body \<noteq> []"
    and "readJson (USERS_FILE fs) = Inr users"
    and "List.find (same_name (body_username body)) users = None"
  shows "login bcrypt_compare body session fs
           = (failure 401 invalid_credentials_msg, session, fs)"
  using assms by (simp add: login_def Let_def)

lemma login_wrong_password:
  assumes "body \<noteq> JNull"
    and "body_username body \<noteq> []" and "body_password body \<noteq> []"
    and "readJson (USERS_FILE fs) = Inr users"
    and "List.find (same_name (body_username body)) users = Some u"
    and "\<not> bcrypt_compare (body_password body) (passwordHash u)"
  shows "login bcrypt_compare body session fs
           = (failure 401 invalid_credentials_msg, session, fs)"
  using assms by (simp add: login_def Let_def)

lemma login_found:
  assumes "body \<noteq> JNull"
    and "body_username body \<noteq> []" and "body_password body \<noteq> []"
    and "readJson (USERS_FILE fs) = Inr users"
    and "List.find (same_name (body_username body)) users = Some u"
    and "bcrypt_compare (body_password body) (passwordHash u)"
  shows "login bcrypt_compare body session fs
           = (Reply 200 (JObj [(''ok'', JBool True),
                               (''username'', JStr (username u)),
                               (''id'', JNum (user_id u)),
                               (''avatarUrl'', js_or (Some (avatarUrl u)) (JStr []))]),
              Some (user_id u), fs)"
  using assms by (simp add: login_def Let_def)

subsection \<open>One answer for every rejected login\<close>

text \<open>
  C3. On any users file, a login whose name is found but whose password does not
  verify against the stored hash, and a login whose name matches no user, get the same
  answer: status 401 with the one message \<open>invalid_credentials_msg\<close>, the session and
  the files untouched. This holds for requests that carry a non-empty name (after
  trimming) and a non-empty password.
\<close>

theorem login_same_rejection:
  assumes "body1 \<noteq> JNull" and "body2 \<noteq> JNull"
    and "body_username body1 \<noteq> []" and "body_password body1 \<noteq> []"
    and "body_username body2 \<noteq> []" and "body_password body2 \<noteq> []"
    and "readJson (USERS_FILE fs) = Inr users"
    and "List.find (same_name (body_username body1)) users = Some u"
    and "\<not> bcrypt_compare (body_password body1) (passwordHash u)"
    and "List.find (same_name (body_username body2)) users = None"
  shows "login bcrypt_compare body1 session1 fs
           = (failure 401 invalid_credentials_msg, session1, fs)
       \<and> login bcrypt_compare body2 session2 fs
           = (failure 401 invalid_credentials_msg, session2, fs)"
proof
  show "login bcrypt_compare body1 session1 fs
          = (failure 401 invalid_credentials_msg, session1, fs)"
    using assms(1,3,4,7,8,9) by (rule login_wrong_password)
  show "login bcrypt_compare body2 session2 fs
          = (failure 401 invalid_credentials_msg, session2, fs)"
    using assms(2,5,6,7,10) by (rule login_unknown)
qed

theorem login_same_rejection_witness:
  "credentials ''ANA_01'' ''wrong1'' \<noteq> JNull \<and> credentials ''nobody'' ''wrong1'' \<noteq> JNull
   \<and> body_username (credentials ''ANA_01'' ''wrong1'') \<noteq> []
   \<and> body_password (credentials ''ANA_01'' ''wrong1'') \<noteq> []
   \<and> body_username (credentials ''nobody'' ''wrong1'') \<noteq> []
   \<and> body_password (credentials ''nobody'' ''wrong1'') \<noteq> []
   \<and> readJson (USERS_FILE store0) = Inr [ana]
   \<and> List.find (same_name (body_username (credentials ''ANA_01'' ''wrong1''))) [ana] = Some ana
   \<and> \<not> demo_compare (body_password (credentials ''ANA_01'' ''wrong1'')) (passwordHash ana)
   \<and> List.find (same_name (body_username (credentials ''nobody'' ''wrong1''))) [ana] = None
   \<and> login demo_compare (credentials ''ANA_01'' ''wrong1'') None store0
       = (failure 401 invalid_credentials_msg, None, store0)
   \<and> login demo_compare (credentials ''nobody'' ''wrong1'') None store0
       = (failure 401 invalid_credentials_msg, None, store0)"
proof -
  have a: "credentials ''ANA_01'' ''wrong1'' \<noteq> JNull" "credentials ''nobody'' ''wrong1'' \<noteq> JNull"
    by (simp_all add: body_credentials)
  have b: "body_username (credentials ''ANA_01'' ''wrong1'') \<noteq> []"
          "body_password (credentials ''ANA_01'' ''wrong1'') \<noteq> []"
          "body_username (credentials ''nobody'' ''wrong1'') \<noteq> []"
          "body_password (credentials ''nobody'' ''wrong1'') \<noteq> []"
    by (simp_all add: body_credentials trims)
  have c: "readJson (USERS_FILE store0) = Inr [ana]"
    by (simp add: store0_def)
  have d: "List.find (same_name (body_username (credentials ''ANA_01'' ''wrong1''))) [ana]
             = Some ana"
    by (simp add: body_credentials trims same_name_def lowers ana_def)
  have e: "\<not> demo_compare (body_password (credentials ''ANA_01'' ''wrong1'')) (passwordHash ana)"
    by (simp add: body_credentials demo_compare_def demo_hash_def ana_def)
  have f: "List.find (same_name (body_username (credentials ''nobody'' ''wrong1''))) [ana] = None"
    by (simp add: body_credentials trims same_name_def lowers ana_def)
  show ?thesis
    using login_same_rejection
            [where bcrypt_compare = demo_compare and ?session1.0 = None
               and ?session2.0 = None, OF a b c d e f]
          a b c d e f
    by simp
qed

text \<open>
  A login with an empty password is answered 400 \<open>Credenciales incompletas\<close> before the
  users file is read, also when the name exists.
\<close>

theorem login_empty_password_counterexample:
  "List.find (same_name (body_username (credentials ''Ana_01'' []))) [ana] = Some ana
   \<and> \<not> demo_compare (body_password (credentials ''Ana_01'' [])) (passwordHash ana)
   \<and> login demo_compare (credentials ''Ana_01'' []) None store0
       = (failure 400 ''Credenciales incompletas'', None, store0)
   \<and> login demo_compare (credentials ''nobody'' ''wrong1'') None store0
       = (failure 401 invalid_credentials_msg, None, store0)
   \<and> failure 400 ''Credenciales incompletas'' \<noteq> failure 401 invalid_credentials_msg"
proof -
  have t: "trim ''Ana_01'' = ''Ana_01''" by code_simp
  have "login demo_compare (credentials ''Ana_01'' []) None store0
       = (failure 400 ''Credenciales incompletas'', None, store0)"
    by (simp add: login_def body_credentials)
  moreover have "login demo_compare (credentials ''nobody'' ''wrong1'') None store0
       = (failure 401 invalid_credentials_msg, None, store0)"
    by (simp add: login_def body_credentials trims store0_def same_name_def lowers ana_def)
  ultimately show ?thesis
    by (simp add: body_credentials t same_name_def lowers ana_def demo_compare_def
                  demo_hash_def failure_def)
qed

subsection \<open>Login after registration\<close>

lemma toLowerCase_Nil: "toLowerCase s = toLowerCase t \<Longrightarrow> t \<noteq> [] \<Longrightarrow> s \<noteq> []"
  by (auto simp: toLowerCase_def)

lemma find_append_new:
  assumes "List.find P xs = None" and "P y"
  shows "List.find P (xs @ [y]) = Some y"
  using assms by (induction xs) (auto split: if_splits)

text \<open>
  Right after a successful registration the login finds the new record, which is the
  last of the file and the only one matching the name.
\<close>

lemma login_right_after_register:
  assumes "register bcrypt_hash salt date_now now_iso body session fs
             = (Reply 200 r, session', fs')"
    and "bcrypt_compare (body_password body) (bcrypt_hash (body_password body) salt)"
    and "body' \<noteq> JNull"
    and "toLowerCase (body_username body') = toLowerCase (body_username body)"
    and "body_password body' = body_password body"
  shows "login bcrypt_compare body' session'' fs'
           = (Reply 200 (JObj [(''ok'', JBool True),
                               (''username'', JStr (body_username body)),
                               (''id'', JNum date_now),
                               (''avatarUrl'', JStr [])]),
              Some date_now, fs')"
proof -
  from register_200D [OF assms(1)] obtain users where
    ok: "body \<noteq> JNull" "name_pattern (body_username body)"
        "6 \<le> length (body_password body)"
    and rd: "readJson (USERS_FILE fs) = Inr users"
    and fresh: "List.find (same_name (body_username body)) users = None"
    by blast
  let ?nu = "\<lparr>user_id = date_now, username = body_username body,
              passwordHash = bcrypt_hash (body_password body) salt,
              avatarUrl = JStr [], createdAt = now_iso\<rparr>"
  have fs': "fs' = fs\<lparr>USERS_FILE := Rows (users @ [?nu])\<rparr>"
    using register_fresh [OF ok rd fresh, of bcrypt_hash salt date_now now_iso session]
          assms(1)
    by simp
  have same: "same_name (body_username body') = same_name (body_username body)"
    using assms(4) by (simp add: same_name_def fun_eq_iff)
  have found: "List.find (same_name (body_username body')) (users @ [?nu]) = Some ?nu"
    unfolding same using fresh by (rule find_append_new) (simp add: same_name_def)
  have nonempty: "body_username body' \<noteq> []" "body_password body' \<noteq> []"
    using assms(4,5) ok(2,3) toLowerCase_Nil [of "body_username body'" "body_username body"]
          name_pattern_long [OF ok(2)]
    by auto
  have rd': "readJson (USERS_FILE fs') = Inr (users @ [?nu])"
    by (simp add: fs')
  have cmp: "bcrypt_compare (body_password body') (passwordHash ?nu)"
    using assms(2,5) by simp
  show ?thesis
    using login_found [where bcrypt_compare = bcrypt_compare and body = body'
                         and fs = fs' and u = ?nu and session = session'']
          assms(3) nonempty rd' found cmp
    by simp
qed

text \<open>
  The handlers that write the users file keep what the login lookup sees of an account:
  a registration appends after it, a change of avatar touches no name, hash or id, a
  restart leaves an existing file alone.
\<close>

lemma find_append_old:
  "List.find P xs = Some u \<Longrightarrow> List.find P (xs @ ys) = Some u"
  by (induction xs) (auto split: if_splits)

lemma find_update_avatar:
  assumes "List.find (same_name n) users = Some u"
  shows "\<exists>u'. List.find (same_name n) (users[idx := (users ! idx)\<lparr>avatarUrl := a\<rparr>]) = Some u'
            \<and> username u' = username u \<and> passwordHash u' = passwordHash u
            \<and> user_id u' = user_id u"
  using assms
proof (induction users arbitrary: idx)
  case Nil
  then show ?case by simp
next
  case (Cons x xs)
  show ?case
  proof (cases idx)
    case 0
    then show ?thesis
      using Cons.prems by (auto simp: same_name_def split: if_splits)
  next
    case (Suc j)
    then show ?thesis
      using Cons.prems Cons.IH [of j] by (auto split: if_splits)
  qed
qed

lemma register_gives_account:
  assumes "register bcrypt_hash salt date_now now_iso body session fs
             = (Reply 200 r, session', fs')"
  shows "has_account (body_username body) (bcrypt_hash (body_password body) salt)
           date_now fs'"
proof -
  from register_200D [OF assms] obtain users where
    ok: "body \<noteq> JNull" "name_pattern (body_username body)"
        "6 \<le> length (body_password body)"
    and rd: "readJson (USERS_FILE fs) = Inr users"
    and fresh: "List.find (same_name (body_username body)) users = None"
    by blast
  let ?nu = "\<lparr>user_id = date_now, username = body_username body,
              passwordHash = bcrypt_hash (body_password body) salt,
              avatarUrl = JStr [], createdAt = now_iso\<rparr>"
  have "fs' = fs\<lparr>USERS_FILE := Rows (users @ [?nu])\<rparr>"
    using register_fresh [OF ok rd fresh, of bcrypt_hash salt date_now now_iso session] assms
    by simp
  moreover have "List.find (same_name (body_username body)) (users @ [?nu]) = Some ?nu"
    using fresh by (rule find_append_new) (simp add: same_name_def)
  ultimately show ?thesis
    by (simp add: has_account_def)
qed

lemma register_keeps_account:
  assumes "has_account n h i fs"
  shows "has_account n h i
           (snd (snd (register bcrypt_hash salt date_now now_iso body session fs)))"
  using assms
  by (auto simp: register_def Let_def has_account_def writeJson_def find_append_old
           split: sum.splits option.splits)

lemma me_avatar_keeps_account:
  assumes "has_account n h i fs"
  shows "has_account n h i (snd (me_avatar body session fs))"
proof -
  from assms obtain users u where
    rd: "readJson (USERS_FILE fs) = Inr users"
    and u: "List.find (same_name n) users = Some u"
           "username u = n" "passwordHash u = h" "user_id u = i"
    by (auto simp: has_account_def split: sum.splits option.splits)
  have upd: "has_account n h i
               (fs\<lparr>USERS_FILE := Rows (users[idx := (users ! idx)\<lparr>avatarUrl := a\<rparr>])\<rparr>)"
    for idx a
    using find_update_avatar [OF u(1), of idx a] u(2-4)
    by (auto simp: has_account_def)
  show ?thesis
    using assms rd upd
    by (auto simp: me_avatar_def writeJson_def split: option.splits)
qed

lemma others_keep_account:
  assumes "has_account n h i fs"
  shows "has_account n h i (snd (snd (login bcrypt_compare body session fs)))"
    and "has_account n h i (snd (saveResponse now_iso body fs))"
    and "has_account n h i (snd (saveLogin now_iso body fs))"
  using assms
  by (auto simp: login_def saveResponse_def saveLogin_def Let_def has_account_def
           split: sum.splits option.splits)

lemma ensureDataFiles_keeps_account:
  assumes "has_account n h i fs"
  shows "has_account n h i (ensureDataFiles fs)"
  using assms
  by (cases "USERS_FILE fs") (simp_all add: has_account_def ensureDataFiles_def ensure_def)

lemma serve_keeps_account:
  assumes "has_account n h i fs"
  shows "has_account n h i (serve bcrypt_hash bcrypt_compare r fs)"
  using assms
  by (cases r)
     (simp_all add: register_keeps_account me_avatar_keeps_account others_keep_account
                    ensureDataFiles_keeps_account)

lemma serve_all_keeps_account:
  assumes "has_account n h i fs"
  shows "has_account n h i (serve_all bcrypt_hash bcrypt_compare rs fs)"
  using assms
  by (induction rs arbitrary: fs) (simp_all add: serve_keeps_account)

lemma login_finds_account:
  assumes "has_account n h i fs"
    and "body \<noteq> JNull"
    and "toLowerCase (body_username body) = toLowerCase n"
    and "n \<noteq> []" and "body_password body \<noteq> []"
    and "bcrypt_compare (body_password body) h"
  shows "\<exists>users u. readJson (USERS_FILE fs) = Inr users \<and> u \<in> set users
            \<and> username u = n \<and> passwordHash u = h \<and> user_id u = i
            \<and> login bcrypt_compare body session fs
                = (Reply 200 (JObj [(''ok'', JBool True), (''username'', JStr n),
                                    (''id'', JNum i),
                                    (''avatarUrl'', js_or (Some (avatarUrl u)) (JStr []))]),
                   Some i, fs)"
proof -
  from assms(1) obtain users u where
    rd: "readJson (USERS_FILE fs) = Inr users"
    and u: "List.find (same_name n) users = Some u"
           "username u = n" "passwordHash u = h" "user_id u = i"
    by (auto simp: has_account_def split: sum.splits option.splits)
  have mem: "u \<in> set users"
    using u(1) by (auto simp: find_Some_iff)
  have same: "same_name (body_username body) = same_name n"
    using assms(3) by (simp add: same_name_def fun_eq_iff)
  have ne: "body_username body \<noteq> []"
    using assms(3,4) by (rule toLowerCase_Nil)
  have "login bcrypt_compare body session fs
          = (Reply 200 (JObj [(''ok'', JBool True), (''username'', JStr (username u)),
                              (''id'', JNum (user_id u)),
                              (''avatarUrl'', js_or (Some (avatarUrl u)) (JStr []))]),
             Some (user_id u), fs)"
    using assms(2) ne assms(5) rd u(1) assms(6) u(3)
    by (intro login_found) (simp_all add: same)
  then show ?thesis
    using rd mem u by blast
qed

lemma later_store: "serve_all demo_hash demo_compare later_requests store1 = store2"
  by (simp add: later_requests_def store1_def store2_def saveLogin_def login_entry_def
        credentials_def trims me_avatar_def ana_def bob_def writeJson_def
        ensureDataFiles_def ensure_def register_def carol_body_def Let_def
        body_username_def body_password_def carol_name same_name_def lowers)

text \<open>
  C4. A user record stored by a successful registration can log in from then on: right
  after the registration and after any further requests served since, whatever users
  registered before or after, a login whose name equals the registered name up to
  letter case and whose password is the registered one (bcrypt verifying a password
  against its own hash) succeeds. The reply carries the name exactly as it was stored
  at registration, not as it was typed at login, with the id given at registration,
  which also becomes the session's user id, and the avatar of that same record.
\<close>

theorem login_after_register:
  assumes "register bcrypt_hash salt date_now now_iso body session fs
             = (Reply 200 r, session', fs')"
    and "bcrypt_compare (body_password body) (bcrypt_hash (body_password body) salt)"
    and "body' \<noteq> JNull"
    and "toLowerCase (body_username body') = toLowerCase (body_username body)"
    and "body_password body' = body_password body"
    and "fs'' = serve_all bcrypt_hash bcrypt_compare reqs fs'"
  shows "login bcrypt_compare body' session'' fs'
           = (Reply 200 (JObj [(''ok'', JBool True),
                               (''username'', JStr (body_username body)),
                               (''id'', JNum date_now),
                               (''avatarUrl'', JStr [])]),
              Some date_now, fs')
       \<and> (\<exists>users u. readJson (USERS_FILE fs'') = Inr users \<and> u \<in> set users
            \<and> username u = body_username body
            \<and> passwordHash u = bcrypt_hash (body_password body) salt
            \<and> user_id u = date_now
            \<and> login bcrypt_compare body' session'' fs''
                = (Reply 200 (JObj [(''ok'', JBool True),
                                    (''username'', JStr (body_username body)),
                                    (''id'', JNum date_now),
                                    (''avatarUrl'', js_or (Some (avatarUrl u)) (JStr []))]),
                   Some date_now, fs''))"
proof
  show "login bcrypt_compare body' session'' fs'
           = (Reply 200 (JObj [(''ok'', JBool True),
                               (''username'', JStr (body_username body)),
                               (''id'', JNum date_now),
                               (''avatarUrl'', JStr [])]),
              Some date_now, fs')"
    using assms(1-5) by (rule login_right_after_register)
next
  have ok: "name_pattern (body_username body)" "6 \<le> length (body_password body)"
    using register_200D [OF assms(1)] by simp_all
  have "has_account (body_username body) (bcrypt_hash (body_password body) salt)
          date_now fs'"
    using assms(1) by (rule register_gives_account)
  then have acc: "has_account (body_username body)
                    (bcrypt_hash (body_password body) salt) date_now fs''"
    unfolding assms(6) by (rule serve_all_keeps_account)
  have ne: "body_username body \<noteq> []" "body_password body' \<noteq> []"
    using ok name_pattern_long [OF ok(1)] assms(5) by auto
  have cmp: "bcrypt_compare (body_password body') (bcrypt_hash (body_password body) salt)"
    using assms(2,5) by simp
  show "\<exists>users u. readJson (USERS_FILE fs'') = Inr users \<and> u \<in> set users
            \<and> username u = body_username body
            \<and> passwordHash u = bcrypt_hash (body_password body) salt
            \<and> user_id u = date_now
            \<and> login bcrypt_compare body' session'' fs''
                = (Reply 200 (JObj [(''ok'', JBool True),
                                    (''username'', JStr (body_username body)),
                                    (''id'', JNum date_now),
                                    (''avatarUrl'', js_or (Some (avatarUrl u)) (JStr []))]),
                   Some date_now, fs'')"
    using login_finds_account [where bcrypt_compare = bcrypt_compare and session = session'',
                               OF acc assms(3,4) ne cmp]
    by simp
qed

theorem login_after_register_witness:
  "register demo_hash ''nb'' 2000 ''2024-02-02T00:00:00.000Z''
     (credentials ''Bob_02'' ''secret2'') None store0
   = (Reply 200 (JObj [(''ok'', JBool True), (''username'', JStr ''Bob_02''),
                       (''id'', JNum 2000)]),
      Some 2000, store1)
   \<and> demo_compare (body_password (credentials ''Bob_02'' ''secret2''))
        (demo_hash (body_password (credentials ''Bob_02'' ''secret2'')) ''nb'')
   \<and> credentials '' bob_02 '' ''secret2'' \<noteq> JNull
   \<and> toLowerCase (body_username (credentials '' bob_02 '' ''secret2''))
       = toLowerCase (body_username (credentials ''Bob_02'' ''secret2''))
   \<and> body_password (credentials '' bob_02 '' ''secret2'')
       = body_password (credentials ''Bob_02'' ''secret2'')
   \<and> store2 = serve_all demo_hash demo_compare later_requests store1
   \<and> login demo_compare (credentials '' bob_02 '' ''secret2'') None store2
       = (Reply 200 (JObj [(''ok'', JBool True), (''username'', JStr ''Bob_02''),
                           (''id'', JNum 2000),
                           (''avatarUrl'', JStr ''http://img/bob.png'')]),
          Some 2000, store2)"
proof -
  have b: "demo_compare (body_password (credentials ''Bob_02'' ''secret2''))
             (demo_hash (body_password (credentials ''Bob_02'' ''secret2'')) ''nb'')"
    by (simp add: body_credentials demo_compare_def demo_hash_def)
  have c: "credentials '' bob_02 '' ''secret2'' \<noteq> JNull"
    by (simp add: body_credentials)
  have d: "toLowerCase (body_username (credentials '' bob_02 '' ''secret2''))
             = toLowerCase (body_username (credentials ''Bob_02'' ''secret2''))"
    by (simp add: body_credentials trims lowers)
  have e: "body_password (credentials '' bob_02 '' ''secret2'')
             = body_password (credentials ''Bob_02'' ''secret2'')"
    by (simp add: body_credentials)
  have f: "store2 = serve_all demo_hash demo_compare later_requests store1"
    by (simp add: later_store)
  have users: "readJson (USERS_FILE store2)
                 = Inr [ana, bob\<lparr>avatarUrl := JStr ''http://img/bob.png''\<rparr>,
                        \<lparr>user_id = 3000, username = ''carol-3'',
                         passwordHash = demo_hash ''secret3'' ''nc'',
                         avatarUrl = JStr [], createdAt = ''2024-03-03T00:00:00.000Z''\<rparr>]"
    by (simp add: store2_def)
  have ids: "user_id ana \<noteq> 2000" by (simp add: ana_def)
  have "login demo_compare (credentials '' bob_02 '' ''secret2'') None store2
       = (Reply 200 (JObj [(''ok'', JBool True), (''username'', JStr ''Bob_02''),
                           (''id'', JNum 2000),
                           (''avatarUrl'', JStr ''http://img/bob.png'')]),
          Some 2000, store2)"
    using login_after_register
            [where bcrypt_hash = demo_hash and bcrypt_compare = demo_compare
               and session'' = None and reqs = later_requests and fs'' = store2,
             OF register_bob b c d e f]
          users ids
    by (auto simp: body_credentials trims bob_def)
  then show ?thesis
    using register_bob b c d e f by simp
qed

section \<open>Changing the avatar\<close>

lemma findIndex_Some:
  "findIndex P xs = Some i \<Longrightarrow> i < length xs \<and> P (xs ! i)"
proof (induction xs arbitrary: i)
  case Nil
  then show ?case by simp
next
  case (Cons x xs)
  then show ?case by (auto split: if_splits)
qed

lemma findIndex_None:
  "findIndex P xs = None \<Longrightarrow> x \<in> set xs \<Longrightarrow> \<not> P x"
  by (induction xs) (auto split: if_splits)

lemma map_update_same:
  assumes "f y = f (xs ! i)"
  shows "map f (xs[i := y]) = map f xs"
proof (cases "i < length xs")
  case True
  then have "(map f xs)[i := f y] = (map f xs)[i := map f xs ! i]"
    using assms by simp
  then show ?thesis
    by (simp add: map_update)
next
  case False
  then show ?thesis
    by (simp add: list_update_beyond)
qed

text \<open>
  C8. With a session whose user id occurs in the users file, \<open>POST /api/me/avatar\<close>
  rewrites the file with one record changed, the first one carrying that id, and in it
  only \<open>avatarUrl\<close>: the ids, names, password hashes and creation times of all records,
  their number and order, and every other record as a whole are what they were. The
  other two files are not written.
\<close>

theorem me_avatar_frame:
  assumes "session = Some userId" and "userId \<noteq> 0" and "body \<noteq> JNull"
    and "readJson (USERS_FILE fs) = Inr users"
    and "userId \<in> user_id ` set users"
  shows "\<exists>idx users'.
           findIndex (\<lambda>u. user_id u = userId) users = Some idx
         \<and> idx < length users \<and> user_id (users ! idx) = userId
         \<and> users' = users[idx := (users ! idx)
                        \<lparr>avatarUrl := js_or (get_prop body ''avatarUrl'') (JStr [])\<rparr>]
         \<and> me_avatar body session fs = (ok_reply, fs\<lparr>USERS_FILE := Rows users'\<rparr>)
         \<and> map user_id users' = map user_id users
         \<and> map username users' = map username users
         \<and> map passwordHash users' = map passwordHash users
         \<and> map createdAt users' = map createdAt users
         \<and> (\<forall>j. j \<noteq> idx \<longrightarrow> users' ! j = users ! j)"
proof -
  let ?P = "\<lambda>u. user_id u = userId"
  obtain idx where idx: "findIndex ?P users = Some idx"
    using assms(5) findIndex_None [of ?P users] by (cases "findIndex ?P users") auto
  let ?new = "(users ! idx)\<lparr>avatarUrl := js_or (get_prop body ''avatarUrl'') (JStr [])\<rparr>"
  let ?users' = "users[idx := ?new]"
  have run: "me_avatar body session fs = (ok_reply, fs\<lparr>USERS_FILE := Rows ?users'\<rparr>)"
    using assms(1-4) idx by (simp add: me_avatar_def writeJson_def)
  have found: "idx < length users \<and> user_id (users ! idx) = userId"
    using findIndex_Some [OF idx] by simp
  have "map user_id ?users' = map user_id users"
    by (rule map_update_same) simp
  moreover have "map username ?users' = map username users"
    by (rule map_update_same) simp
  moreover have "map passwordHash ?users' = map passwordHash users"
    by (rule map_update_same) simp
  moreover have "map createdAt ?users' = map createdAt users"
    by (rule map_update_same) simp
  moreover have "\<forall>j. j \<noteq> idx \<longrightarrow> ?users' ! j = users ! j"
    by simp
  ultimately show ?thesis
    using run found idx by blast
qed

theorem me_avatar_frame_witness:
  "Some (2000::int) = Some 2000 \<and> (2000::int) \<noteq> 0
   \<and> JObj [(''avatarUrl'', JStr ''http://img/bob.png'')] \<noteq> JNull
   \<and> readJson (USERS_FILE store1) = Inr [ana, bob]
   \<and> 2000 \<in> user_id ` set [ana, bob]
   \<and> me_avatar (JObj [(''avatarUrl'', JStr ''http://img/bob.png'')]) (Some 2000) store1
       = (ok_reply,
          store1\<lparr>USERS_FILE :=
            Rows [ana, bob\<lparr>avatarUrl := JStr ''http://img/bob.png''\<rparr>]\<rparr>)"
proof -
  have c: "JObj [(''avatarUrl'', JStr ''http://img/bob.png'')] \<noteq> JNull"
    by simp
  have d: "readJson (USERS_FILE store1) = Inr [ana, bob]"
    by (simp add: store1_def)
  have e: "2000 \<in> user_id ` set [ana, bob]"
    by (simp add: bob_def)
  have f: "findIndex (\<lambda>u. user_id u = 2000) [ana, bob] = Some 1"
    by (simp add: ana_def bob_def)
  show ?thesis
    using me_avatar_frame
            [where session = "Some 2000" and userId = 2000 and fs = store1
               and body = "JObj [(''avatarUrl'', JStr ''http://img/bob.png'')]"
               and users = "[ana, bob]"]
          c d e f
    by auto
qed

section \<open>Avatar lookup without an id\<close>

text \<open>
  C7. When the lookup by name succeeds but its answer carries no \<open>Id\<close> (or a false
  one), \<open>GET /api/avatar/:username\<close> answers 404 \<open>Usuario Roblox no encontrado\<close> and the
  lookup is the only outbound request made: the thumbnail is never asked for.
\<close>

theorem avatar_without_id:
  assumes "trim param \<noteq> []"
    and "fetch (Get_By_Username (trim param)) = Response True (Some ud)"
    and "falsy (get_prop ud ''Id'')"
  shows "avatar fetch param
           = (failure 404 ''Usuario Roblox no encontrado'', [Get_By_Username (trim param)])"
  using assms by (simp add: avatar_def Let_def)

theorem avatar_without_id_witness:
  "trim ''unknownUser123'' \<noteq> []
   \<and> lookup_only (Get_By_Username (trim ''unknownUser123''))
       = Response True (Some (JObj [(''errorMessage'', JStr ''User not found'')]))
   \<and> falsy (get_prop (JObj [(''errorMessage'', JStr ''User not found'')]) ''Id'')
   \<and> avatar lookup_only ''unknownUser123''
       = (failure 404 ''Usuario Roblox no encontrado'', [Get_By_Username ''unknownUser123''])"
proof -
  have a: "trim ''unknownUser123'' \<noteq> []"
    by (simp add: trims)
  have b: "lookup_only (Get_By_Username (trim ''unknownUser123''))
             = Response True (Some (JObj [(''errorMessage'', JStr ''User not found'')]))"
    by (simp add: lookup_only_def)
  have c: "falsy (get_prop (JObj [(''errorMessage'', JStr ''User not found'')]) ''Id'')"
    by simp
  show ?thesis
    using avatar_without_id
            [of "''unknownUser123''" lookup_only
                "JObj [(''errorMessage'', JStr ''User not found'')]"] a b c
    by (simp add: trims)
qed

end
